theory Spec2Isabelle
  imports Main "HOL-Library.AList"
begin

section \<open>Data model of \<open>backend/server.py\<close>\<close>

text \<open>
  JSON values as Python sees them after decoding (token claims, store rows).
  Numbers are modelled as integers.
\<close>

datatype json =
    JNull
  | JBool bool
  | JNum int
  | JStr string
  | JArr "json list"
  | JObj "(string \<times> json) list"

type_synonym dict = "(string \<times> json) list"

text \<open>Python truthiness, as tested by \<open>not x\<close> and \<open>if x:\<close>.\<close>

fun truthy :: "json \<Rightarrow> bool" where
  "truthy JNull = False"
| "truthy (JBool b) = b"
| "truthy (JNum n) = (n \<noteq> 0)"
| "truthy (JStr s) = (s \<noteq> [])"
| "truthy (JArr xs) = (xs \<noteq> [])"
| "truthy (JObj kvs) = (kvs \<noteq> [])"

text \<open>\<open>d.get(k, default)\<close> on a dictionary kept as an association list.\<close>

definition dict_get :: "('k \<times> 'v) list \<Rightarrow> 'k \<Rightarrow> 'v \<Rightarrow> 'v" where
  "dict_get d k dflt = (case map_of d k of None \<Rightarrow> dflt | Some v \<Rightarrow> v)"

datatype UserRole =
    SAAS_SUPER_ADMIN
  | SAAS_ADMIN
  | SAAS_ACCOUNTANT
  | ORGANIZATION_OWNER
  | ORGANIZATION_ADMIN
  | ORGANIZATION_USER

datatype SubscriptionTier = FREE | STARTER | PROFESSIONAL | ENTERPRISE

text \<open>A parsed \<open>datetime\<close>, as seconds since the epoch.\<close>

type_synonym datetime = int

record UserProfile =
  profile_id :: string
  profile_email :: string
  first_name :: "string option"
  last_name :: "string option"
  avatar_url :: "string option"
  phone :: "string option"
  timezone :: string
  profile_created_at :: datetime
  profile_updated_at :: datetime
  last_login :: "datetime option"
  profile_is_active :: bool

record Organization =
  org_id :: string
  org_name :: string
  org_domain :: "string option"
  org_created_at :: datetime
  org_updated_at :: datetime
  org_is_active :: bool
  subscription_tier :: SubscriptionTier
  max_users :: int
  settings :: dict

record OrganizationMembership =
  membership_id :: string
  membership_user_id :: string
  organization_id :: string
  role :: UserRole
  invited_by :: "string option"
  invited_at :: datetime
  accepted_at :: "datetime option"
  created_at :: datetime
  updated_at :: datetime
  is_active :: bool
  organization :: "Organization option"

record UserContext =
  ctx_id :: string
  email :: string
  profile :: UserProfile
  memberships :: "OrganizationMembership list"
  raw_payload :: dict

section \<open>The authorization queries of \<open>UserContext\<close>\<close>

text \<open>
  \<open>get_membership_for_organization\<close>: the \<open>for\<close> loop over \<open>self.memberships\<close>
  returns at the first membership that matches and is active, \<open>None\<close> after the loop.
\<close>

fun membership_loop :: "OrganizationMembership list \<Rightarrow> string \<Rightarrow> OrganizationMembership option" where
  "membership_loop [] org = None"
| "membership_loop (membership # rest) org =
     (if organization_id membership = org \<and> is_active membership then Some membership
      else membership_loop rest org)"

definition get_membership_for_organization :: "UserContext \<Rightarrow> string \<Rightarrow> OrganizationMembership option" where
  "get_membership_for_organization self org = membership_loop (memberships self) org"

definition role_hierarchy :: "(UserRole \<times> int) list" where
  "role_hierarchy =
     [(ORGANIZATION_USER, 1),
      (ORGANIZATION_ADMIN, 2),
      (ORGANIZATION_OWNER, 3),
      (SAAS_ACCOUNTANT, 4),
      (SAAS_ADMIN, 5),
      (SAAS_SUPER_ADMIN, 6)]"

definition has_minimum_role_in_organization :: "UserContext \<Rightarrow> string \<Rightarrow> UserRole \<Rightarrow> bool" where
  "has_minimum_role_in_organization self org min_role =
     (case get_membership_for_organization self org of
        None \<Rightarrow> False
      | Some membership \<Rightarrow>
          (let user_level = dict_get role_hierarchy (role membership) 0;
               min_level = dict_get role_hierarchy min_role 0
           in user_level \<ge> min_level))"

definition saas_roles :: "UserRole set" where
  "saas_roles = {SAAS_ACCOUNTANT, SAAS_ADMIN, SAAS_SUPER_ADMIN}"

definition has_saas_role :: "UserContext \<Rightarrow> bool" where
  "has_saas_role self = list_ex (\<lambda>membership. role membership \<in> saas_roles) (memberships self)"

subsection \<open>The order of roles as the specification words it\<close>

text \<open>
  The six-level order organization_user < organization_admin < organization_owner <
  saas_accountant < saas_admin < saas_super_admin, lowest first; the rank of a role is its
  position in it.
\<close>

definition role_order :: "UserRole list" where
  "role_order =
     [ORGANIZATION_USER, ORGANIZATION_ADMIN, ORGANIZATION_OWNER,
      SAAS_ACCOUNTANT, SAAS_ADMIN, SAAS_SUPER_ADMIN]"

fun position :: "'a list \<Rightarrow> 'a \<Rightarrow> nat" where
  "position [] r = 0"
| "position (x # xs) r = (if x = r then 0 else Suc (position xs r))"

definition spec_rank :: "UserRole \<Rightarrow> nat" where
  "spec_rank r = position role_order r"

definition organization_roles :: "UserRole set" where
  "organization_roles = {ORGANIZATION_USER, ORGANIZATION_ADMIN, ORGANIZATION_OWNER}"

text \<open>The matching test of the loop, named for the statements below.\<close>

definition active_in :: "string \<Rightarrow> OrganizationMembership \<Rightarrow> bool" where
  "active_in org membership \<longleftrightarrow> organization_id membership = org \<and> is_active membership"

section \<open>Exceptions\<close>

record HTTPException =
  status_code :: int
  detail :: string
  headers :: "(string \<times> string) list option"

definition HTTP_401_UNAUTHORIZED :: int where
  "HTTP_401_UNAUTHORIZED = 401"

text \<open>
  The exception classes that can reach the handlers of this module: those of
  \<open>jwt.exceptions\<close> (PyJWT) with their base classes, and the errors of the validation
  and store libraries. \<open>mro\<close> lists a class with all its base classes, so that
  \<open>except C\<close> catches an exception of class \<open>c\<close> exactly when \<open>C\<close> is in \<open>mro c\<close>.
\<close>

datatype exc_class =
    ExpiredSignatureError
  | InvalidAudienceError
  | InvalidSignatureError
  | DecodeError
  | InvalidTokenError
  | InvalidKeyError
  | PyJWTError
  | ValidationError
  | APIError
  | Exception

fun mro :: "exc_class \<Rightarrow> exc_class list" where
  "mro ExpiredSignatureError = [ExpiredSignatureError, InvalidTokenError, PyJWTError, Exception]"
| "mro InvalidAudienceError = [InvalidAudienceError, InvalidTokenError, PyJWTError, Exception]"
| "mro InvalidSignatureError = [InvalidSignatureError, DecodeError, InvalidTokenError, PyJWTError, Exception]"
| "mro DecodeError = [DecodeError, InvalidTokenError, PyJWTError, Exception]"
| "mro InvalidTokenError = [InvalidTokenError, PyJWTError, Exception]"
| "mro InvalidKeyError = [InvalidKeyError, PyJWTError, Exception]"
| "mro PyJWTError = [PyJWTError, Exception]"
| "mro ValidationError = [ValidationError, Exception]"
| "mro APIError = [APIError, Exception]"
| "mro Exception = [Exception]"

definition issubclass :: "exc_class \<Rightarrow> exc_class \<Rightarrow> bool" where
  "issubclass c base \<longleftrightarrow> base \<in> set (mro c)"

text \<open>
  A raised exception: an \<open>HTTPException\<close> of this module, or a library exception with
  its class and its message (\<open>str(e)\<close>).
\<close>

datatype py_exception =
    HTTPExc HTTPException
  | PyExc exc_class string

section \<open>The collaborators, as parameters\<close>

text \<open>
  What the module calls but does not define: the settings read from the environment,
  \<open>jwt.decode\<close> (token, key, algorithms, audience), the two store queries with the
  value of \<open>.data\<close> they return, and the validating constructors of the models.
\<close>

record environment =
  supabase_jwt_secret :: string
  jwt_decode :: "string \<Rightarrow> string \<Rightarrow> string list \<Rightarrow> string \<Rightarrow> py_exception + dict"
  select_user_profile :: "json \<Rightarrow> py_exception + dict option"
  select_memberships :: "json \<Rightarrow> py_exception + dict list"
  UserProfile_init :: "dict \<Rightarrow> py_exception + UserProfile"
  OrganizationMembership_init :: "dict \<Rightarrow> py_exception + OrganizationMembership"
  Organization_init :: "json \<Rightarrow> py_exception + Organization"
  UserContext_validate :: "json \<Rightarrow> json \<Rightarrow> py_exception + string \<times> string"

section \<open>\<open>JWTHandler\<close>\<close>

record JWTHandler =
  secret_key :: string
  algorithm :: string
  audience :: string

definition jwt_handler :: "environment \<Rightarrow> JWTHandler" where
  "jwt_handler env =
     \<lparr>secret_key = supabase_jwt_secret env, algorithm = ''HS256'', audience = ''authenticated''\<rparr>"

definition bearer_headers :: "(string \<times> string) list option" where
  "bearer_headers = Some [(''WWW-Authenticate'', ''Bearer'')]"

definition decode_token :: "environment \<Rightarrow> JWTHandler \<Rightarrow> string \<Rightarrow> py_exception + dict" where
  "decode_token env self token =
     (case jwt_decode env token (secret_key self) [algorithm self] (audience self) of
        Inr payload \<Rightarrow> Inr payload
      | Inl (HTTPExc h) \<Rightarrow> Inl (HTTPExc h)
      | Inl (PyExc c msg) \<Rightarrow>
          if issubclass c ExpiredSignatureError then
            Inl (HTTPExc \<lparr>status_code = HTTP_401_UNAUTHORIZED,
                          detail = ''Token has expired'',
                          headers = bearer_headers\<rparr>)
          else if issubclass c InvalidTokenError then
            Inl (HTTPExc \<lparr>status_code = HTTP_401_UNAUTHORIZED,
                          detail = ''Invalid authentication token'',
                          headers = bearer_headers\<rparr>)
          else if issubclass c PyJWTError then
            Inl (HTTPExc \<lparr>status_code = HTTP_401_UNAUTHORIZED,
                          detail = ''Could not validate credentials'',
                          headers = bearer_headers\<rparr>)
          else Inl (PyExc c msg))"

definition get_user_id :: "dict \<Rightarrow> py_exception + json" where
  "get_user_id payload =
     (let user_id = dict_get payload ''sub'' JNull
      in if \<not> truthy user_id then
           Inl (HTTPExc \<lparr>status_code = HTTP_401_UNAUTHORIZED,
                         detail = ''Token does not contain user ID'',
                         headers = None\<rparr>)
         else Inr user_id)"

definition get_user_email :: "dict \<Rightarrow> py_exception + json" where
  "get_user_email payload =
     (let email_claim = dict_get payload ''email'' JNull
      in if \<not> truthy email_claim then
           Inl (HTTPExc \<lparr>status_code = HTTP_401_UNAUTHORIZED,
                         detail = ''Token does not contain user email'',
                         headers = None\<rparr>)
         else Inr email_claim)"

section \<open>\<open>get_current_user\<close>\<close>

text \<open>What the function does besides returning: the store queries it issues and the lines it logs.\<close>

datatype event =
    Select string json
  | LogError string

text \<open>
  The body of the loop over \<open>memberships_result.data\<close>: the embedded organization is
  popped from the row, the rest is validated as a membership, and a non-empty
  organization is validated and attached.
\<close>

definition build_membership :: "environment \<Rightarrow> dict \<Rightarrow> py_exception + OrganizationMembership" where
  "build_membership env item =
     (let org_data = dict_get item ''organization'' (JObj []);
          item' = AList.delete ''organization'' item
      in case OrganizationMembership_init env item' of
           Inl e \<Rightarrow> Inl e
         | Inr membership \<Rightarrow>
             if truthy org_data then
               (case Organization_init env org_data of
                  Inl e \<Rightarrow> Inl e
                | Inr org \<Rightarrow> Inr (membership\<lparr>organization := Some org\<rparr>))
             else Inr membership)"

fun build_memberships ::
  "environment \<Rightarrow> dict list \<Rightarrow> OrganizationMembership list \<Rightarrow> py_exception + OrganizationMembership list" where
  "build_memberships env [] acc = Inr acc"
| "build_memberships env (item # items) acc =
     (case build_membership env item of
        Inl e \<Rightarrow> Inl e
      | Inr membership \<Rightarrow> build_memberships env items (acc @ [membership]))"

text \<open>
  \<open>UserContext(id=..., email=..., profile=..., memberships=..., raw_payload=...)\<close>:
  the two raw claims are validated as \<open>str\<close> and \<open>EmailStr\<close>; the other arguments
  are already of their field's type.
\<close>

definition UserContext_init ::
  "environment \<Rightarrow> json \<Rightarrow> json \<Rightarrow> UserProfile \<Rightarrow> OrganizationMembership list \<Rightarrow> dict
     \<Rightarrow> py_exception + UserContext" where
  "UserContext_init env user_id email_claim prof ms payload =
     (case UserContext_validate env user_id email_claim of
        Inl e \<Rightarrow> Inl e
      | Inr (uid, addr) \<Rightarrow>
          Inr \<lparr>ctx_id = uid, email = addr, profile = prof,
               memberships = ms, raw_payload = payload\<rparr>)"

text \<open>Lines 201 to 229: the profile, the memberships, the snapshot.\<close>

definition load_memberships ::
  "environment \<Rightarrow> json \<Rightarrow> event list \<times> (py_exception + OrganizationMembership list)" where
  "load_memberships env user_id =
     ([Select ''organization_memberships'' user_id],
      case select_memberships env user_id of
        Inl e \<Rightarrow> Inl e
      | Inr data \<Rightarrow> if data \<noteq> [] then build_memberships env data [] else Inr [])"

definition profile_not_found :: py_exception where
  "profile_not_found =
     HTTPExc \<lparr>status_code = HTTP_401_UNAUTHORIZED,
              detail = ''User profile not found'',
              headers = None\<rparr>"

text \<open>
  \<open>result.data\<close> of the \<open>.single()\<close> query is a row or \<open>None\<close>; \<open>not result.data\<close>
  holds for \<open>None\<close> and for the empty dictionary.
\<close>

definition load_user_context ::
  "environment \<Rightarrow> dict \<Rightarrow> json \<Rightarrow> json \<Rightarrow> event list \<times> (py_exception + UserContext)" where
  "load_user_context env payload user_id email_claim =
     (let q1 = [Select ''user_profiles'' user_id]
      in case select_user_profile env user_id of
           Inl e \<Rightarrow> (q1, Inl e)
         | Inr None \<Rightarrow> (q1, Inl profile_not_found)
         | Inr (Some row) \<Rightarrow>
             if row = [] then (q1, Inl profile_not_found)
             else
               (case UserProfile_init env row of
                  Inl e \<Rightarrow> (q1, Inl e)
                | Inr prof \<Rightarrow>
                    (case load_memberships env user_id of
                       (q2, Inl e) \<Rightarrow> (q1 @ q2, Inl e)
                     | (q2, Inr ms) \<Rightarrow>
                         (q1 @ q2, UserContext_init env user_id email_claim prof ms payload))))"

text \<open>The body of the \<open>try\<close>.\<close>

definition try_body :: "environment \<Rightarrow> string \<Rightarrow> event list \<times> (py_exception + UserContext)" where
  "try_body env token =
     (case decode_token env (jwt_handler env) token of
        Inl e \<Rightarrow> ([], Inl e)
      | Inr payload \<Rightarrow>
          (case get_user_id payload of
             Inl e \<Rightarrow> ([], Inl e)
           | Inr user_id \<Rightarrow>
               (case get_user_email payload of
                  Inl e \<Rightarrow> ([], Inl e)
                | Inr email_claim \<Rightarrow> load_user_context env payload user_id email_claim)))"

record HTTPAuthorizationCredentials =
  scheme :: string
  credentials :: string

text \<open>
  An \<open>HTTPException\<close> raised in the \<open>try\<close> is raised again as it is; any other
  exception is logged and replaced.
\<close>

definition get_current_user ::
  "environment \<Rightarrow> HTTPAuthorizationCredentials option \<Rightarrow> event list \<times> (HTTPException + UserContext)" where
  "get_current_user env creds =
     (case creds of
        None \<Rightarrow>
          ([], Inl \<lparr>status_code = HTTP_401_UNAUTHORIZED,
                    detail = ''Bearer authentication required'',
                    headers = bearer_headers\<rparr>)
      | Some c \<Rightarrow>
          (case try_body env (credentials c) of
             (evs, Inr ctx) \<Rightarrow> (evs, Inr ctx)
           | (evs, Inl (HTTPExc h)) \<Rightarrow> (evs, Inl h)
           | (evs, Inl (PyExc cls msg)) \<Rightarrow>
               (evs @ [LogError (''Error in get_current_user: '' @ msg)],
                Inl \<lparr>status_code = HTTP_401_UNAUTHORIZED,
                     detail = ''Authentication failed'',
                     headers = None\<rparr>)))"

section \<open>Example data\<close>

text \<open>
  The scenario of the specification: subject \<open>u1\<close> with email \<open>u1@x.com\<close>, an owner of
  organization \<open>o1\<close> who also holds \<open>saas_admin\<close> in \<open>o9\<close>; and collaborators that
  answer with fixed values.
\<close>

definition example_profile :: UserProfile where
  "example_profile =
     \<lparr>profile_id = ''u1'', profile_email = ''u1@x.com'', first_name = None, last_name = None,
      avatar_url = None, phone = None, timezone = ''UTC'', profile_created_at = 0,
      profile_updated_at = 0, last_login = None, profile_is_active = True\<rparr>"

definition example_organization :: "string \<Rightarrow> Organization" where
  "example_organization oid =
     \<lparr>org_id = oid, org_name = ''Acme'', org_domain = None, org_created_at = 0,
      org_updated_at = 0, org_is_active = True, subscription_tier = FREE, max_users = 5,
      settings = []\<rparr>"

definition example_membership :: "string \<Rightarrow> string \<Rightarrow> UserRole \<Rightarrow> bool \<Rightarrow> OrganizationMembership" where
  "example_membership mid org r active =
     \<lparr>membership_id = mid, membership_user_id = ''u1'', organization_id = org, role = r,
      invited_by = None, invited_at = 0, accepted_at = None, created_at = 0, updated_at = 0,
      is_active = active, organization = None\<rparr>"

definition example_context :: "OrganizationMembership list \<Rightarrow> UserContext" where
  "example_context ms =
     \<lparr>ctx_id = ''u1'', email = ''u1@x.com'', profile = example_profile, memberships = ms,
      raw_payload = []\<rparr>"

definition scenario_context :: UserContext where
  "scenario_context =
     example_context
       [example_membership ''m9'' ''o9'' SAAS_ADMIN True,
        example_membership ''m1'' ''o1'' ORGANIZATION_OWNER True]"

definition duplicate_context :: UserContext where
  "duplicate_context =
     example_context
       [example_membership ''m1'' ''o1'' ORGANIZATION_USER True,
        example_membership ''m2'' ''o1'' ORGANIZATION_OWNER True]"

definition inactive_staff_context :: UserContext where
  "inactive_staff_context =
     example_context [example_membership ''m9'' ''o9'' SAAS_ADMIN False]"

definition example_payload :: dict where
  "example_payload =
     [(''sub'', JStr ''u1''), (''email'', JStr ''u1@x.com''), (''aud'', JStr ''authenticated'')]"

definition payload_without_sub :: dict where
  "payload_without_sub = [(''email'', JStr ''u1@x.com''), (''aud'', JStr ''authenticated'')]"

definition example_membership_init :: "dict \<Rightarrow> py_exception + OrganizationMembership" where
  "example_membership_init item =
     (case (map_of item ''id'', map_of item ''organization_id'') of
        (Some (JStr mid), Some (JStr org)) \<Rightarrow> Inr (example_membership mid org ORGANIZATION_USER True)
      | _ \<Rightarrow> Inl (PyExc ValidationError ''OrganizationMembership''))"

definition example_organization_init :: "json \<Rightarrow> py_exception + Organization" where
  "example_organization_init org_data =
     (case org_data of
        JObj kvs \<Rightarrow>
          (case map_of kvs ''id'' of
             Some (JStr oid) \<Rightarrow> Inr (example_organization oid)
           | _ \<Rightarrow> Inl (PyExc ValidationError ''Organization''))
      | _ \<Rightarrow> Inl (PyExc ValidationError ''Organization''))"

definition example_validate :: "json \<Rightarrow> json \<Rightarrow> py_exception + string \<times> string" where
  "example_validate uid em =
     (case (uid, em) of
        (JStr u, JStr e) \<Rightarrow> Inr (u, e)
      | _ \<Rightarrow> Inl (PyExc ValidationError ''UserContext''))"

definition example_env ::
  "(py_exception + dict) \<Rightarrow> (py_exception + dict option) \<Rightarrow> dict list \<Rightarrow> environment" where
  "example_env decoded profile_data rows =
     \<lparr>supabase_jwt_secret = ''secret'',
      jwt_decode = (\<lambda>token key algorithms aud.
        if key = ''secret'' \<and> algorithms = [''HS256''] \<and> aud = ''authenticated'' then decoded
        else Inl (PyExc InvalidTokenError ''unexpected arguments'')),
      select_user_profile = (\<lambda>uid. profile_data),
      select_memberships = (\<lambda>uid. Inr rows),
      UserProfile_init = (\<lambda>row. Inr example_profile),
      OrganizationMembership_init = example_membership_init,
      Organization_init = example_organization_init,
      UserContext_validate = example_validate\<rparr>"

definition example_credentials :: HTTPAuthorizationCredentials where
  "example_credentials = \<lparr>scheme = ''Bearer'', credentials = ''token''\<rparr>"

definition expired_env :: environment where
  "expired_env = example_env (Inl (PyExc ExpiredSignatureError ''Signature has expired'')) (Inr None) []"

definition bad_signature_env :: environment where
  "bad_signature_env =
     example_env (Inl (PyExc InvalidSignatureError ''Signature verification failed'')) (Inr None) []"

definition hydrating_env :: "dict list \<Rightarrow> environment" where
  "hydrating_env rows = example_env (Inr example_payload) (Inr (Some [(''id'', JStr ''u1'')])) rows"

definition joined_rows :: "dict list" where
  "joined_rows =
     [[(''id'', JStr ''m2''), (''organization_id'', JStr ''o2''),
       (''organization'', JObj [(''id'', JStr ''o2'')])],
      [(''id'', JStr ''m1''), (''organization_id'', JStr ''o1''), (''organization'', JNull)]]"

definition joined_memberships :: "OrganizationMembership list" where
  "joined_memberships =
     [(example_membership ''m2'' ''o2'' ORGANIZATION_USER True)
        \<lparr>organization := Some (example_organization ''o2'')\<rparr>,
      example_membership ''m1'' ''o1'' ORGANIZATION_USER True]"

lemmas example_defs =
  example_context_def example_membership_def example_profile_def

lemmas env_defs = example_env_def example_credentials_def jwt_handler_def decode_token_def
  issubclass_def HTTP_401_UNAUTHORIZED_def bearer_headers_def

section \<open>Lemmas on the loops and the stages\<close>

lemma rank_of_level: "dict_get role_hierarchy r 0 = int (spec_rank r) + 1"
  by (cases r) (simp_all add: dict_get_def role_hierarchy_def spec_rank_def role_order_def)

lemma membership_loop_Cons:
  "membership_loop (m # ms) org = (if active_in org m then Some m else membership_loop ms org)"
  by (simp add: active_in_def)

lemma membership_loop_None: "membership_loop ms org = None \<longleftrightarrow> (\<forall>m\<in>set ms. \<not> active_in org m)"
  by (induction ms) (simp_all add: membership_loop_Cons del: membership_loop.simps(2))

lemma membership_loop_first:
  "i < length ms \<Longrightarrow> active_in org (ms ! i) \<Longrightarrow> \<forall>j<i. \<not> active_in org (ms ! j)
     \<Longrightarrow> membership_loop ms org = Some (ms ! i)"
proof (induction ms arbitrary: i)
  case Nil
  then show ?case by simp
next
  case (Cons m ms)
  show ?case
  proof (cases i)
    case 0
    with Cons.prems show ?thesis by (simp add: membership_loop_Cons del: membership_loop.simps(2))
  next
    case (Suc k)
    with Cons.prems have "\<not> active_in org m" by auto
    moreover from Suc Cons.prems have "membership_loop ms org = Some (ms ! k)"
      by (intro Cons.IH) auto
    ultimately show ?thesis
      using Suc by (simp add: membership_loop_Cons del: membership_loop.simps(2))
  qed
qed

lemma membership_loop_Some:
  "membership_loop ms org = Some m \<Longrightarrow>
     \<exists>i<length ms. ms ! i = m \<and> active_in org m \<and> (\<forall>j<i. \<not> active_in org (ms ! j))"
proof (induction ms)
  case Nil
  then show ?case by simp
next
  case (Cons x ms)
  show ?case
  proof (cases "active_in org x")
    case True
    with Cons.prems have "x = m" by (simp add: membership_loop_Cons del: membership_loop.simps(2))
    with True have "(x # ms) ! 0 = m \<and> active_in org m \<and> (\<forall>j<0. \<not> active_in org ((x # ms) ! j))"
      by simp
    then show ?thesis by (intro exI[of _ 0]) simp
  next
    case False
    with Cons.prems have "membership_loop ms org = Some m"
      by (simp add: membership_loop_Cons del: membership_loop.simps(2))
    from Cons.IH[OF this] obtain i where i: "i < length ms" "ms ! i = m" "active_in org m"
      "\<forall>j<i. \<not> active_in org (ms ! j)" by blast
    have "\<forall>j<Suc i. \<not> active_in org ((x # ms) ! j)"
      using False i(4) by (auto simp: less_Suc_eq_0_disj)
    with i show ?thesis by (intro exI[of _ "Suc i"]) simp
  qed
qed

lemma membership_loop_removeAll:
  "\<not> is_active m \<Longrightarrow> membership_loop (removeAll m ms) org = membership_loop ms org"
  by (induction ms) auto

lemma decode_token_raises:
  assumes "jwt_decode env token (supabase_jwt_secret env) [''HS256''] ''authenticated''
             = Inl (PyExc cls msg)"
  shows "decode_token env (jwt_handler env) token =
           (if issubclass cls PyJWTError then
              Inl (HTTPExc \<lparr>status_code = 401,
                detail = (if issubclass cls ExpiredSignatureError then ''Token has expired''
                          else if issubclass cls InvalidTokenError then ''Invalid authentication token''
                          else ''Could not validate credentials''),
                headers = Some [(''WWW-Authenticate'', ''Bearer'')]\<rparr>)
            else Inl (PyExc cls msg))"
  using assms
  by (cases cls)
     (simp_all add: decode_token_def jwt_handler_def issubclass_def HTTP_401_UNAUTHORIZED_def
        bearer_headers_def)

lemma claims_accepted:
  assumes "truthy (dict_get payload ''sub'' JNull)" and "truthy (dict_get payload ''email'' JNull)"
  shows "get_user_id payload = Inr (dict_get payload ''sub'' JNull)"
    and "get_user_email payload = Inr (dict_get payload ''email'' JNull)"
  using assms by (simp_all add: get_user_id_def get_user_email_def Let_def)

lemma try_body_hydrates:
  assumes "decode_token env (jwt_handler env) token = Inr payload"
    and "truthy (dict_get payload ''sub'' JNull)"
    and "truthy (dict_get payload ''email'' JNull)"
  shows "try_body env token =
           load_user_context env payload (dict_get payload ''sub'' JNull)
             (dict_get payload ''email'' JNull)"
  by (simp add: try_body_def assms(1) claims_accepted [OF assms(2,3)])

lemma build_memberships_acc:
  "list_all2 (\<lambda>item m. build_membership env item = Inr m) rows ms
     \<Longrightarrow> build_memberships env rows acc = Inr (acc @ ms)"
proof (induction rows arbitrary: ms acc)
  case Nil
  then show ?case by simp
next
  case (Cons item rows)
  from Cons.prems obtain m ms' where ms: "ms = m # ms'"
    and m: "build_membership env item = Inr m"
    and rest: "list_all2 (\<lambda>item m. build_membership env item = Inr m) rows ms'"
    by (auto simp: list_all2_Cons1)
  from Cons.IH [OF rest, of "acc @ [m]"] show ?case
    by (simp add: m ms)
qed

lemma load_memberships_rows:
  assumes "select_memberships env user_id = Inr rows"
    and "list_all2 (\<lambda>item m. build_membership env item = Inr m) rows ms"
  shows "load_memberships env user_id = ([Select ''organization_memberships'' user_id], Inr ms)"
proof (cases "rows = []")
  case True
  with assms show ?thesis by (simp add: load_memberships_def)
next
  case False
  with assms(1) build_memberships_acc [OF assms(2), of "[]"] show ?thesis
    by (simp add: load_memberships_def)
qed

section \<open>The claims\<close>

text \<open>
  Claim C1, as amended. When the first active membership for organization \<open>org\<close> in the
  list (position \<open>i\<close>, no active membership for \<open>org\<close> before it) has role \<open>r1\<close>,
  \<open>has_minimum_role_in_organization\<close> answers true for \<open>r2\<close> exactly when the rank of
  \<open>r1\<close> in the six-level order is at least the rank of \<open>r2\<close>.
\<close>

theorem has_minimum_role_first_active:
  assumes "i < length (memberships u)"
    and "active_in org (memberships u ! i)"
    and "\<forall>j<i. \<not> active_in org (memberships u ! j)"
    and "role (memberships u ! i) = r1"
  shows "has_minimum_role_in_organization u org r2 \<longleftrightarrow> spec_rank r1 \<ge> spec_rank r2"
proof -
  have "get_membership_for_organization u org = Some (memberships u ! i)"
    unfolding get_membership_for_organization_def
    using assms(1-3) by (rule membership_loop_first)
  then show ?thesis
    using assms(4) by (simp add: has_minimum_role_in_organization_def rank_of_level)
qed

text \<open>
  The scenario of the specification, behind a membership for another organization: an
  owner of \<open>o1\<close> reaches \<open>organization_admin\<close> but not \<open>saas_admin\<close>.
\<close>

theorem has_minimum_role_first_active_witness:
  "\<not> active_in ''o1'' (memberships scenario_context ! 0)
   \<and> active_in ''o1'' (memberships scenario_context ! 1)
   \<and> role (memberships scenario_context ! 1) = ORGANIZATION_OWNER
   \<and> has_minimum_role_in_organization scenario_context ''o1'' ORGANIZATION_ADMIN
   \<and> \<not> has_minimum_role_in_organization scenario_context ''o1'' SAAS_ADMIN"
proof -
  have len: "1 < length (memberships scenario_context)"
    by (simp add: scenario_context_def example_defs)
  have act: "active_in ''o1'' (memberships scenario_context ! 1)"
    by (simp add: scenario_context_def example_defs active_in_def)
  have nact: "\<not> active_in ''o1'' (memberships scenario_context ! 0)"
    by (simp add: scenario_context_def example_defs active_in_def)
  then have first: "\<forall>j<1. \<not> active_in ''o1'' (memberships scenario_context ! j)"
    by simp
  have r: "role (memberships scenario_context ! 1) = ORGANIZATION_OWNER"
    by (simp add: scenario_context_def example_defs)
  note inst = has_minimum_role_first_active [OF len act first r]
  have "has_minimum_role_in_organization scenario_context ''o1'' ORGANIZATION_ADMIN"
    using inst [of ORGANIZATION_ADMIN] by (simp add: spec_rank_def role_order_def)
  moreover have "\<not> has_minimum_role_in_organization scenario_context ''o1'' SAAS_ADMIN"
    using inst [of SAAS_ADMIN] by (simp add: spec_rank_def role_order_def)
  ultimately show ?thesis using act nact r by simp
qed

text \<open>
  Claim C1 as stated fails when two active memberships for the same organization carry
  different roles: the snapshot holds an active owner membership in \<open>o1\<close>, owner ranks
  above admin, and the answer for \<open>organization_admin\<close> is false, because the earlier
  \<open>organization_user\<close> membership is the one compared.
\<close>

theorem has_minimum_role_duplicate_counterexample:
  "example_membership ''m2'' ''o1'' ORGANIZATION_OWNER True \<in> set (memberships duplicate_context)
   \<and> active_in ''o1'' (example_membership ''m2'' ''o1'' ORGANIZATION_OWNER True)
   \<and> role (example_membership ''m2'' ''o1'' ORGANIZATION_OWNER True) = ORGANIZATION_OWNER
   \<and> spec_rank ORGANIZATION_OWNER \<ge> spec_rank ORGANIZATION_ADMIN
   \<and> \<not> has_minimum_role_in_organization duplicate_context ''o1'' ORGANIZATION_ADMIN"
  by (simp add: duplicate_context_def example_context_def example_membership_def active_in_def
      spec_rank_def role_order_def has_minimum_role_in_organization_def
      get_membership_for_organization_def dict_get_def role_hierarchy_def)

text \<open>
  Claim C2. \<open>has_saas_role\<close> is true exactly when some membership of the snapshot has a
  role among \<open>saas_accountant\<close>, \<open>saas_admin\<close>, \<open>saas_super_admin\<close>; it is false when
  every membership carries an organization-level role; and its answer does not change
  when the memberships are attached to other organizations.
\<close>

theorem has_saas_role_iff:
  "(has_saas_role u \<longleftrightarrow>
      (\<exists>m\<in>set (memberships u). role m \<in> {SAAS_ACCOUNTANT, SAAS_ADMIN, SAAS_SUPER_ADMIN}))
   \<and> ((\<forall>m\<in>set (memberships u). role m \<in> organization_roles) \<longrightarrow> \<not> has_saas_role u)
   \<and> has_saas_role (u\<lparr>memberships := map (\<lambda>m. m\<lparr>organization_id := f m\<rparr>) (memberships u)\<rparr>)
       = has_saas_role u"
  by (auto simp: has_saas_role_def saas_roles_def organization_roles_def list_ex_iff)

theorem has_saas_role_iff_witness:
  "has_saas_role scenario_context
   \<and> \<not> has_saas_role duplicate_context"
proof -
  have "example_membership ''m9'' ''o9'' SAAS_ADMIN True \<in> set (memberships scenario_context)"
    by (simp add: scenario_context_def example_context_def)
  moreover have "role (example_membership ''m9'' ''o9'' SAAS_ADMIN True)
      \<in> {SAAS_ACCOUNTANT, SAAS_ADMIN, SAAS_SUPER_ADMIN}"
    by (simp add: example_membership_def)
  ultimately have "has_saas_role scenario_context"
    using has_saas_role_iff [of scenario_context] by blast
  moreover have "\<forall>m\<in>set (memberships duplicate_context). role m \<in> organization_roles"
    by (simp add: duplicate_context_def example_defs organization_roles_def)
  then have "\<not> has_saas_role duplicate_context"
    using has_saas_role_iff [of duplicate_context] by blast
  ultimately show ?thesis by simp
qed

text \<open>
  Claim C3. \<open>get_membership_for_organization\<close> returns \<open>None\<close> exactly when no membership
  of the list matches the organization and is active, and returns \<open>m\<close> exactly when \<open>m\<close>
  stands at the first position of the list whose membership matches and is active.
\<close>

theorem get_membership_first_match:
  "(get_membership_for_organization u org = None
      \<longleftrightarrow> (\<forall>m\<in>set (memberships u). \<not> active_in org m))
   \<and> (get_membership_for_organization u org = Some m
      \<longleftrightarrow> (\<exists>i<length (memberships u). memberships u ! i = m \<and> active_in org m
            \<and> (\<forall>j<i. \<not> active_in org (memberships u ! j))))"
  unfolding get_membership_for_organization_def
  using membership_loop_None membership_loop_Some membership_loop_first by blast

text \<open>
  With two active memberships for \<open>o1\<close> the first in list order is returned; for \<open>o2\<close>
  nothing is.
\<close>

theorem get_membership_first_match_witness:
  "get_membership_for_organization duplicate_context ''o1''
     = Some (example_membership ''m1'' ''o1'' ORGANIZATION_USER True)
   \<and> get_membership_for_organization duplicate_context ''o2'' = None"
proof -
  have none: "\<forall>m\<in>set (memberships duplicate_context). \<not> active_in ''o2'' m"
    by (simp add: duplicate_context_def example_defs active_in_def)
  have "0 < length (memberships duplicate_context)
        \<and> memberships duplicate_context ! 0 = example_membership ''m1'' ''o1'' ORGANIZATION_USER True
        \<and> active_in ''o1'' (example_membership ''m1'' ''o1'' ORGANIZATION_USER True)
        \<and> (\<forall>j<0. \<not> active_in ''o1'' (memberships duplicate_context ! j))"
    by (simp add: duplicate_context_def example_defs active_in_def)
  then have some: "\<exists>i<length (memberships duplicate_context).
        memberships duplicate_context ! i = example_membership ''m1'' ''o1'' ORGANIZATION_USER True
        \<and> active_in ''o1'' (example_membership ''m1'' ''o1'' ORGANIZATION_USER True)
        \<and> (\<forall>j<i. \<not> active_in ''o1'' (memberships duplicate_context ! j))"
    by (rule exI [of _ 0])
  show ?thesis
    using get_membership_first_match [of duplicate_context "''o2''"]
      get_membership_first_match [of duplicate_context "''o1''"
        "example_membership ''m1'' ''o1'' ORGANIZATION_USER True"]
      none some by blast
qed

text \<open>
  Claim C4. When the snapshot has no active membership for \<open>org\<close>,
  \<open>has_minimum_role_in_organization\<close> is false for every role argument.
\<close>

theorem has_minimum_role_no_membership:
  assumes "\<forall>m\<in>set (memberships u). \<not> active_in org m"
  shows "\<not> has_minimum_role_in_organization u org r"
proof -
  from assms have "membership_loop (memberships u) org = None"
    by (simp only: membership_loop_None)
  then show ?thesis
    by (simp add: has_minimum_role_in_organization_def get_membership_for_organization_def)
qed

theorem has_minimum_role_no_membership_witness:
  "\<not> active_in ''o2'' (memberships scenario_context ! 0)
   \<and> \<not> active_in ''o2'' (memberships scenario_context ! 1)
   \<and> length (memberships scenario_context) = 2
   \<and> \<not> has_minimum_role_in_organization scenario_context ''o2'' ORGANIZATION_USER"
proof -
  have none: "\<forall>m\<in>set (memberships scenario_context). \<not> active_in ''o2'' m"
    by (simp add: scenario_context_def example_defs active_in_def)
  have "\<not> has_minimum_role_in_organization scenario_context ''o2'' ORGANIZATION_USER"
    using has_minimum_role_no_membership [OF none] .
  then show ?thesis
    by (simp add: scenario_context_def example_defs active_in_def)
qed

text \<open>
  Claim C5, as amended. When \<open>jwt.decode\<close> raises, \<open>get_current_user\<close> always answers
  with status 401, but the detail names the kind of failure: for a PyJWT error it is
  \<open>Token has expired\<close>, \<open>Invalid authentication token\<close> or
  \<open>Could not validate credentials\<close>, with the \<open>WWW-Authenticate: Bearer\<close> header and
  nothing logged; only an exception outside PyJWT is logged and answered with the
  generic \<open>Authentication failed\<close>.
\<close>

theorem decode_failure_response:
  assumes "jwt_decode env (credentials c) (supabase_jwt_secret env) [''HS256''] ''authenticated''
             = Inl (PyExc cls msg)"
  shows "get_current_user env (Some c) =
           (if issubclass cls PyJWTError then
              ([], Inl \<lparr>status_code = 401,
                detail = (if issubclass cls ExpiredSignatureError then ''Token has expired''
                          else if issubclass cls InvalidTokenError then ''Invalid authentication token''
                          else ''Could not validate credentials''),
                headers = Some [(''WWW-Authenticate'', ''Bearer'')]\<rparr>)
            else
              ([LogError (''Error in get_current_user: '' @ msg)],
               Inl \<lparr>status_code = 401, detail = ''Authentication failed'', headers = None\<rparr>))"
  by (simp add: get_current_user_def try_body_def decode_token_raises [OF assms]
      HTTP_401_UNAUTHORIZED_def)

theorem decode_failure_response_witness:
  "jwt_decode bad_signature_env (credentials example_credentials)
      (supabase_jwt_secret bad_signature_env) [''HS256''] ''authenticated''
     = Inl (PyExc InvalidSignatureError ''Signature verification failed'')
   \<and> get_current_user bad_signature_env (Some example_credentials)
     = ([], Inl \<lparr>status_code = 401, detail = ''Invalid authentication token'',
                 headers = Some [(''WWW-Authenticate'', ''Bearer'')]\<rparr>)"
proof -
  have h: "jwt_decode bad_signature_env (credentials example_credentials)
      (supabase_jwt_secret bad_signature_env) [''HS256''] ''authenticated''
     = Inl (PyExc InvalidSignatureError ''Signature verification failed'')"
    by (simp add: bad_signature_env_def example_env_def)
  show ?thesis
    using h decode_failure_response [OF h] by (simp add: issubclass_def)
qed

text \<open>
  Claim C5 as stated fails: an expired token and a token with a bad signature are
  answered with different details, each naming its reason, and nothing is logged.
\<close>

theorem decode_failure_detail_counterexample:
  "get_current_user expired_env (Some example_credentials)
     = ([], Inl \<lparr>status_code = 401, detail = ''Token has expired'',
                 headers = Some [(''WWW-Authenticate'', ''Bearer'')]\<rparr>)
   \<and> get_current_user bad_signature_env (Some example_credentials)
     = ([], Inl \<lparr>status_code = 401, detail = ''Invalid authentication token'',
                 headers = Some [(''WWW-Authenticate'', ''Bearer'')]\<rparr>)
   \<and> get_current_user expired_env (Some example_credentials)
     \<noteq> get_current_user bad_signature_env (Some example_credentials)"
  by (simp add: get_current_user_def try_body_def expired_env_def bad_signature_env_def env_defs)

text \<open>
  Claim C6. When the token decodes but the \<open>sub\<close> or the \<open>email\<close> claim is missing
  (read as \<open>None\<close>) or otherwise falsy, \<open>get_current_user\<close> raises a 401 without issuing
  any store query, so no snapshot is produced.
\<close>

theorem missing_claim_rejected:
  assumes "decode_token env (jwt_handler env) (credentials c) = Inr payload"
    and "\<not> truthy (dict_get payload ''sub'' JNull) \<or> \<not> truthy (dict_get payload ''email'' JNull)"
  shows "get_current_user env (Some c) =
           ([], Inl \<lparr>status_code = 401,
                     detail = (if \<not> truthy (dict_get payload ''sub'' JNull)
                               then ''Token does not contain user ID''
                               else ''Token does not contain user email''),
                     headers = None\<rparr>)"
  using assms
  by (auto simp: get_current_user_def try_body_def get_user_id_def get_user_email_def
      HTTP_401_UNAUTHORIZED_def Let_def)

theorem missing_claim_rejected_witness:
  "decode_token (example_env (Inr payload_without_sub) (Inr None) [])
      (jwt_handler (example_env (Inr payload_without_sub) (Inr None) []))
      (credentials example_credentials) = Inr payload_without_sub
   \<and> map_of payload_without_sub ''sub'' = None
   \<and> get_current_user (example_env (Inr payload_without_sub) (Inr None) []) (Some example_credentials)
     = ([], Inl \<lparr>status_code = 401, detail = ''Token does not contain user ID'', headers = None\<rparr>)"
proof -
  have d: "decode_token (example_env (Inr payload_without_sub) (Inr None) [])
      (jwt_handler (example_env (Inr payload_without_sub) (Inr None) []))
      (credentials example_credentials) = Inr payload_without_sub"
    by (simp add: env_defs)
  have m: "map_of payload_without_sub ''sub'' = None"
    by (simp add: payload_without_sub_def)
  then have f: "\<not> truthy (dict_get payload_without_sub ''sub'' JNull)
      \<or> \<not> truthy (dict_get payload_without_sub ''email'' JNull)"
    by (simp add: dict_get_def)
  show ?thesis
    using d m missing_claim_rejected [OF d f] by (simp add: dict_get_def)
qed

text \<open>
  Claim C7. With a decoded token carrying both claims, when the profile query returns
  no row (\<open>None\<close> or an empty row) \<open>get_current_user\<close> raises 401
  \<open>User profile not found\<close>; when the query raises instead, the exception is logged and
  the answer is 401 \<open>Authentication failed\<close>. In both cases the membership query is not
  issued and no snapshot is returned.
\<close>

theorem missing_profile_unauthorized:
  assumes "decode_token env (jwt_handler env) (credentials c) = Inr payload"
    and "truthy (dict_get payload ''sub'' JNull)"
    and "truthy (dict_get payload ''email'' JNull)"
  shows "(select_user_profile env (dict_get payload ''sub'' JNull) = Inr None
            \<or> select_user_profile env (dict_get payload ''sub'' JNull) = Inr (Some [])
          \<longrightarrow> get_current_user env (Some c) =
                ([Select ''user_profiles'' (dict_get payload ''sub'' JNull)],
                 Inl \<lparr>status_code = 401, detail = ''User profile not found'', headers = None\<rparr>))
       \<and> (select_user_profile env (dict_get payload ''sub'' JNull) = Inl (PyExc cls msg)
          \<longrightarrow> get_current_user env (Some c) =
                ([Select ''user_profiles'' (dict_get payload ''sub'' JNull),
                  LogError (''Error in get_current_user: '' @ msg)],
                 Inl \<lparr>status_code = 401, detail = ''Authentication failed'', headers = None\<rparr>))"
  by (auto simp: get_current_user_def try_body_hydrates [OF assms] load_user_context_def
      profile_not_found_def HTTP_401_UNAUTHORIZED_def Let_def)

theorem missing_profile_unauthorized_witness:
  "decode_token (example_env (Inr example_payload) (Inr None) [])
      (jwt_handler (example_env (Inr example_payload) (Inr None) []))
      (credentials example_credentials) = Inr example_payload
   \<and> dict_get example_payload ''sub'' JNull = JStr ''u1''
   \<and> dict_get example_payload ''email'' JNull = JStr ''u1@x.com''
   \<and> select_user_profile (example_env (Inr example_payload) (Inr None) []) (JStr ''u1'') = Inr None
   \<and> get_current_user (example_env (Inr example_payload) (Inr None) []) (Some example_credentials)
     = ([Select ''user_profiles'' (JStr ''u1'')],
        Inl \<lparr>status_code = 401, detail = ''User profile not found'', headers = None\<rparr>)"
proof -
  have d: "decode_token (example_env (Inr example_payload) (Inr None) [])
      (jwt_handler (example_env (Inr example_payload) (Inr None) []))
      (credentials example_credentials) = Inr example_payload"
    by (simp add: env_defs)
  have s: "dict_get example_payload ''sub'' JNull = JStr ''u1''"
    by (simp add: dict_get_def example_payload_def)
  have e: "dict_get example_payload ''email'' JNull = JStr ''u1@x.com''"
    by (simp add: dict_get_def example_payload_def)
  have ts: "truthy (dict_get example_payload ''sub'' JNull)" by (simp add: s)
  have te: "truthy (dict_get example_payload ''email'' JNull)" by (simp add: e)
  have q: "select_user_profile (example_env (Inr example_payload) (Inr None) []) (JStr ''u1'') = Inr None"
    by (simp add: example_env_def)
  show ?thesis
    using d s e q missing_profile_unauthorized [OF d ts te] by simp
qed

text \<open>
  Claim C8. With a decoded token carrying both claims, a profile row that validates and
  claims that validate, \<open>get_current_user\<close> returns a snapshot whose memberships are the
  validated rows of the membership query, position by position in fetch order; with
  zero rows the list is empty.
\<close>

theorem hydration_keeps_fetch_order:
  assumes "decode_token env (jwt_handler env) (credentials c) = Inr payload"
    and "truthy (dict_get payload ''sub'' JNull)"
    and "truthy (dict_get payload ''email'' JNull)"
    and "select_user_profile env (dict_get payload ''sub'' JNull) = Inr (Some row)"
    and "row \<noteq> []"
    and "UserProfile_init env row = Inr prof"
    and "select_memberships env (dict_get payload ''sub'' JNull) = Inr rows"
    and "list_all2 (\<lambda>item m. build_membership env item = Inr m) rows ms"
    and "UserContext_validate env (dict_get payload ''sub'' JNull) (dict_get payload ''email'' JNull)
           = Inr (uid, addr)"
  shows "get_current_user env (Some c) =
           ([Select ''user_profiles'' (dict_get payload ''sub'' JNull),
             Select ''organization_memberships'' (dict_get payload ''sub'' JNull)],
            Inr \<lparr>ctx_id = uid, email = addr, profile = prof, memberships = ms,
                 raw_payload = payload\<rparr>)
       \<and> length ms = length rows
       \<and> (rows = [] \<longrightarrow> ms = [])"
proof -
  have "load_user_context env payload (dict_get payload ''sub'' JNull)
          (dict_get payload ''email'' JNull) =
        ([Select ''user_profiles'' (dict_get payload ''sub'' JNull),
          Select ''organization_memberships'' (dict_get payload ''sub'' JNull)],
         Inr \<lparr>ctx_id = uid, email = addr, profile = prof, memberships = ms,
              raw_payload = payload\<rparr>)"
    by (simp add: load_user_context_def Let_def assms(4,5,6,9)
        load_memberships_rows [OF assms(7,8)] UserContext_init_def)
  then have "get_current_user env (Some c) =
           ([Select ''user_profiles'' (dict_get payload ''sub'' JNull),
             Select ''organization_memberships'' (dict_get payload ''sub'' JNull)],
            Inr \<lparr>ctx_id = uid, email = addr, profile = prof, memberships = ms,
                 raw_payload = payload\<rparr>)"
    by (simp add: get_current_user_def try_body_hydrates [OF assms(1,2,3)])
  moreover from assms(8) have "length ms = length rows"
    by (simp add: list_all2_lengthD)
  ultimately show ?thesis by auto
qed

theorem hydration_keeps_fetch_order_witness:
  "get_current_user (hydrating_env []) (Some example_credentials)
     = ([Select ''user_profiles'' (JStr ''u1''), Select ''organization_memberships'' (JStr ''u1'')],
        Inr \<lparr>ctx_id = ''u1'', email = ''u1@x.com'', profile = example_profile,
             memberships = [], raw_payload = example_payload\<rparr>)
   \<and> get_current_user (hydrating_env joined_rows) (Some example_credentials)
     = ([Select ''user_profiles'' (JStr ''u1''), Select ''organization_memberships'' (JStr ''u1'')],
        Inr \<lparr>ctx_id = ''u1'', email = ''u1@x.com'', profile = example_profile,
             memberships = joined_memberships, raw_payload = example_payload\<rparr>)"
proof -
  have s: "dict_get example_payload ''sub'' JNull = JStr ''u1''"
    by (simp add: dict_get_def example_payload_def)
  have e: "dict_get example_payload ''email'' JNull = JStr ''u1@x.com''"
    by (simp add: dict_get_def example_payload_def)
  have ts: "truthy (dict_get example_payload ''sub'' JNull)" by (simp add: s)
  have te: "truthy (dict_get example_payload ''email'' JNull)" by (simp add: e)
  have d: "decode_token (hydrating_env rows) (jwt_handler (hydrating_env rows))
      (credentials example_credentials) = Inr example_payload" for rows
    by (simp add: hydrating_env_def env_defs)
  have p: "select_user_profile (hydrating_env rows) (dict_get example_payload ''sub'' JNull)
      = Inr (Some [(''id'', JStr ''u1'')])" for rows
    by (simp add: hydrating_env_def example_env_def)
  have ne: "[(''id'', JStr ''u1'')] \<noteq> ([] :: dict)" by simp
  have u: "UserProfile_init (hydrating_env rows) [(''id'', JStr ''u1'')] = Inr example_profile" for rows
    by (simp add: hydrating_env_def example_env_def)
  have m: "select_memberships (hydrating_env rows) (dict_get example_payload ''sub'' JNull)
      = Inr rows" for rows
    by (simp add: hydrating_env_def example_env_def)
  have v: "UserContext_validate (hydrating_env rows) (dict_get example_payload ''sub'' JNull)
      (dict_get example_payload ''email'' JNull) = Inr (''u1'', ''u1@x.com'')" for rows
    by (simp add: s e hydrating_env_def example_env_def example_validate_def)
  have b0: "list_all2 (\<lambda>item m. build_membership (hydrating_env []) item = Inr m) [] []"
    by simp
  have b2: "list_all2 (\<lambda>item m. build_membership (hydrating_env joined_rows) item = Inr m)
      joined_rows joined_memberships"
    by (simp add: joined_rows_def joined_memberships_def build_membership_def dict_get_def
        hydrating_env_def example_env_def example_membership_init_def
        example_organization_init_def Let_def)
  show ?thesis
    using hydration_keeps_fetch_order [OF d ts te p ne u m b0 v]
      hydration_keeps_fetch_order [OF d ts te p ne u m b2 v]
    by (simp add: s)
qed

text \<open>
  Claim C10. An inactive membership with a platform role makes \<open>has_saas_role\<close> true,
  while \<open>get_membership_for_organization\<close> never returns it and both organization
  queries answer as if it were removed from the list.
\<close>

theorem has_saas_role_ignores_is_active:
  assumes "m \<in> set (memberships u)" and "\<not> is_active m" and "role m \<in> saas_roles"
  shows "has_saas_role u
       \<and> get_membership_for_organization u org \<noteq> Some m
       \<and> get_membership_for_organization (u\<lparr>memberships := removeAll m (memberships u)\<rparr>) org
           = get_membership_for_organization u org
       \<and> has_minimum_role_in_organization (u\<lparr>memberships := removeAll m (memberships u)\<rparr>) org r
           = has_minimum_role_in_organization u org r"
proof -
  have "has_saas_role u"
    using assms(1,3) by (auto simp: has_saas_role_def list_ex_iff)
  moreover have "get_membership_for_organization u org \<noteq> Some m"
  proof
    assume "get_membership_for_organization u org = Some m"
    then have "active_in org m"
      unfolding get_membership_for_organization_def by (blast dest: membership_loop_Some)
    with assms(2) show False by (simp add: active_in_def)
  qed
  moreover have "get_membership_for_organization (u\<lparr>memberships := removeAll m (memberships u)\<rparr>) org
      = get_membership_for_organization u org"
    using assms(2) by (simp add: get_membership_for_organization_def membership_loop_removeAll)
  ultimately show ?thesis
    by (simp add: has_minimum_role_in_organization_def)
qed

theorem has_saas_role_ignores_is_active_witness:
  "example_membership ''m9'' ''o9'' SAAS_ADMIN False \<in> set (memberships inactive_staff_context)
   \<and> \<not> is_active (example_membership ''m9'' ''o9'' SAAS_ADMIN False)
   \<and> role (example_membership ''m9'' ''o9'' SAAS_ADMIN False) \<in> saas_roles
   \<and> has_saas_role inactive_staff_context
   \<and> get_membership_for_organization inactive_staff_context ''o9'' = None
   \<and> \<not> has_minimum_role_in_organization inactive_staff_context ''o9'' ORGANIZATION_USER"
proof -
  have a: "example_membership ''m9'' ''o9'' SAAS_ADMIN False \<in> set (memberships inactive_staff_context)"
    by (simp add: inactive_staff_context_def example_context_def)
  have b: "\<not> is_active (example_membership ''m9'' ''o9'' SAAS_ADMIN False)"
    by (simp add: example_membership_def)
  have c: "role (example_membership ''m9'' ''o9'' SAAS_ADMIN False) \<in> saas_roles"
    by (simp add: example_membership_def saas_roles_def)
  note inst = has_saas_role_ignores_is_active [OF a b c, of "''o9''" ORGANIZATION_USER]
  have rem: "removeAll (example_membership ''m9'' ''o9'' SAAS_ADMIN False)
      (memberships inactive_staff_context) = []"
    by (simp add: inactive_staff_context_def example_context_def)
  have "get_membership_for_organization inactive_staff_context ''o9'' = None"
    using inst by (simp add: rem get_membership_for_organization_def)
  moreover have "\<not> has_minimum_role_in_organization inactive_staff_context ''o9'' ORGANIZATION_USER"
    using inst
    by (simp add: rem has_minimum_role_in_organization_def get_membership_for_organization_def)
  ultimately show ?thesis using a b c inst by simp
qed

end
